theory Spec2Isabelle
  imports Main "HOL-Library.Word" "HOL-Library.Sublist" "HOL-Library.AList"
begin

section \<open>Strings\<close>

text \<open>
  A Go \<^verbatim>\<open>string\<close> is a sequence of bytes, modelled as \<^typ>\<open>string\<close>. The three functions
  of package \<^verbatim>\<open>strings\<close> that the query builder calls are modelled for the arguments it
  passes: a one-byte separator for \<^verbatim>\<open>Split\<close>, a one-byte pattern and the count \<^verbatim>\<open>-1\<close>
  (every occurrence) for \<^verbatim>\<open>Replace\<close>.
\<close>

fun split_from :: "string \<Rightarrow> char \<Rightarrow> string \<Rightarrow> string list" where
  "split_from cur sep [] = [cur]"
| "split_from cur sep (c # cs) =
     (if c = sep then cur # split_from [] sep cs else split_from (cur @ [c]) sep cs)"

definition Split :: "string \<Rightarrow> char \<Rightarrow> string list" where
  "Split s sep = split_from [] sep s"

fun Join :: "string list \<Rightarrow> string \<Rightarrow> string" where
  "Join [] sep = []"
| "Join [p] sep = p"
| "Join (p # q # ps) sep = p @ sep @ Join (q # ps) sep"

fun Replace :: "string \<Rightarrow> char \<Rightarrow> string \<Rightarrow> string" where
  "Replace [] old new = []"
| "Replace (c # cs) old new = (if c = old then new else [c]) @ Replace cs old new"

definition backtick :: char where
  "backtick = CHR 0x60"

text \<open>
  \<^verbatim>\<open>fmt.Sprintf("%d", n)\<close> for a Go \<^verbatim>\<open>int\<close>: the decimal digits, with a minus sign for a
  negative number. No arithmetic is done on these numbers, so they are modelled as \<^typ>\<open>int\<close>.
\<close>

definition digit_char :: "nat \<Rightarrow> char" where
  "digit_char d = char_of (48 + d)"

fun decimal :: "nat \<Rightarrow> string" where
  "decimal n = (if n < 10 then [digit_char n] else decimal (n div 10) @ [digit_char (n mod 10)])"

declare decimal.simps [simp del]

definition Sprintf_d :: "int \<Rightarrow> string" where
  "Sprintf_d i = (if i < 0 then CHR ''-'' # decimal (nat (- i)) else decimal (nat i))"

section \<open>Identifier escaping\<close>

text \<open>
  \<^verbatim>\<open>EscapeId(id string, ignore_dot ...bool)\<close>: the variadic flag is the list of the flags
  passed.
\<close>

definition quote_part :: "string \<Rightarrow> string" where
  "quote_part part = [backtick] @ Replace part backtick [backtick, backtick] @ [backtick]"

definition EscapeId :: "string \<Rightarrow> bool list \<Rightarrow> string" where
  "EscapeId ident ignore_dot =
     (if length ignore_dot > 0 \<and> hd ignore_dot
      then [backtick] @ Replace ident backtick [backtick, backtick] @ [backtick]
      else Join (map quote_part (Split ident (CHR ''.''))) ''.'')"

section \<open>Values and maps\<close>

text \<open>
  The dynamic values that a Go \<^verbatim>\<open>interface{}\<close> holds in this library:
  \<^item> \<open>VNil\<close>: the nil interface;
  \<^item> \<open>VBool\<close>, \<open>VInt\<close> (Go \<^verbatim>\<open>int\<close>), \<open>VStr\<close>: scalars;
  \<^item> \<open>VStrs\<close>: a \<^verbatim>\<open>[]string\<close>;
  \<^item> \<open>VSlice\<close>: a slice of any other type, given by its elements as interface values
    (what \<^verbatim>\<open>reflect.Value.Index(i).Interface()\<close> returns);
  \<^item> \<open>VMap\<close>: a value of kind map, given by the text \<^verbatim>\<open>json.Marshal\<close> produces for it
    (package \<^verbatim>\<open>encoding/json\<close> is outside the repository, and the builder uses such a value
    only through that text).
\<close>

datatype val =
    VNil
  | VBool bool
  | VInt int
  | VStr string
  | VStrs "string list"
  | VSlice "val list"
  | VMap string

datatype kind = KInvalid | KBool | KInt | KString | KSlice | KMap

fun Kind :: "val \<Rightarrow> kind" where
  "Kind VNil = KInvalid"
| "Kind (VBool b) = KBool"
| "Kind (VInt i) = KInt"
| "Kind (VStr s) = KString"
| "Kind (VStrs ss) = KSlice"
| "Kind (VSlice vs) = KSlice"
| "Kind (VMap js) = KMap"

text \<open>The elements of a slice value, each as an interface value.\<close>

fun elements :: "val \<Rightarrow> val list" where
  "elements (VStrs ss) = map VStr ss"
| "elements (VSlice vs) = vs"
| "elements v = []"

fun json_Marshal :: "val \<Rightarrow> string" where
  "json_Marshal (VMap js) = js"
| "json_Marshal v = []"

text \<open>
  A Go \<^verbatim>\<open>map[string]interface{}\<close>: \<open>None\<close> is the nil map; otherwise the entries, in the
  order in which this call's \<^verbatim>\<open>range\<close> loop visits them. Reading a key of the nil map
  finds nothing; assigning into the nil map panics.
\<close>

type_synonym gomap = "(string \<times> val) list option"

definition index :: "gomap \<Rightarrow> string \<Rightarrow> val option" where
  "index m k = (case m of None \<Rightarrow> None | Some entries \<Rightarrow> map_of entries k)"

section \<open>The WHERE clause\<close>

record where_t =
  query :: string
  "values" :: "val list"

text \<open>The inner loop of \<^verbatim>\<open>prepare_where\<close> over the elements of a slice value.\<close>

fun in_loop :: "val list \<Rightarrow> val list \<Rightarrow> string list \<Rightarrow> val list \<times> string list" where
  "in_loop [] vals placeholders = (vals, placeholders)"
| "in_loop (e # es) vals placeholders = in_loop es (vals @ [e]) (placeholders @ [''?''])"

text \<open>The loop over the entries of the condition map.\<close>

fun where_loop :: "(string \<times> val) list \<Rightarrow> val list \<Rightarrow> string list \<Rightarrow> val list \<times> string list" where
  "where_loop [] vals conditions = (vals, conditions)"
| "where_loop ((k, v) # rest) vals conditions =
     (let key = EscapeId k [] in
      if v = VNil then where_loop rest vals (conditions @ [key @ '' IS NULL''])
      else if Kind v = KSlice then
        (case in_loop (elements v) vals [] of (vals', placeholders) \<Rightarrow>
           where_loop rest vals' (conditions @ [key @ ''IN('' @ Join placeholders '', '' @ '')'']))
      else
        (let v' = (if Kind v = KMap then VStr (json_Marshal v) else v)
         in where_loop rest (vals @ [v']) (conditions @ [key @ '' = ?''])))"

definition prepare_where :: "gomap \<Rightarrow> where_t" where
  "prepare_where where_map =
     (case where_map of
        None \<Rightarrow> \<lparr>query = [], values = []\<rparr>
      | Some entries \<Rightarrow>
          (case where_loop entries [] [] of (vals, conditions) \<Rightarrow>
             \<lparr>query = '' WHERE '' @ Join conditions '' AND '', values = vals\<rparr>))"

section \<open>Fragments built from the options map\<close>

definition order_query :: "gomap \<Rightarrow> string" where
  "order_query options =
     (case index options ''order'' of Some (VStr val) \<Rightarrow> '' ORDER BY '' @ val | _ \<Rightarrow> [])"

definition limit_query :: "gomap \<Rightarrow> bool \<Rightarrow> string" where
  "limit_query options has_offset =
     (case index options ''limit'' of
        Some (VInt limit) \<Rightarrow>
          if has_offset then
            (let offset = (case index options ''offset'' of Some (VInt v) \<Rightarrow> v | _ \<Rightarrow> 0)
             in '' LIMIT '' @ Sprintf_d offset @ '', '' @ Sprintf_d limit)
          else '' LIMIT '' @ Sprintf_d limit
      | _ \<Rightarrow> [])"

text \<open>
  \<^verbatim>\<open>prepare_columns\<close> also writes the escaped names back into the caller's slice; only
  the text it returns reaches the statement built by the same call.
\<close>

definition prepare_columns :: "gomap \<Rightarrow> string" where
  "prepare_columns options =
     (case index options ''column'' of
        Some (VStr field) \<Rightarrow> EscapeId field []
      | _ \<Rightarrow>
          (case index options ''columns'' of
             Some (VStrs field_list) \<Rightarrow> Join (map (\<lambda>f. EscapeId f []) field_list) '', ''
           | _ \<Rightarrow> ''*''))"

text \<open>
  \<^verbatim>\<open>prepare_set\<close> fills a slice allocated with one slot per entry, at a running index.
\<close>

fun set_loop :: "(string \<times> val) list \<Rightarrow> nat \<Rightarrow> val list \<Rightarrow> string list \<Rightarrow> val list \<times> string list" where
  "set_loop [] i vals columns = (vals, columns)"
| "set_loop ((k, v) # rest) i vals columns =
     (if v = VNil then set_loop rest (i + 1) vals (columns[i := EscapeId k [] @ '' = NULL''])
      else set_loop rest (i + 1) (vals @ [v]) (columns[i := EscapeId k [] @ '' = ?'']))"

definition entries_of :: "gomap \<Rightarrow> (string \<times> val) list" where
  "entries_of m = (case m of None \<Rightarrow> [] | Some entries \<Rightarrow> entries)"

definition prepare_set :: "gomap \<Rightarrow> string \<times> val list" where
  "prepare_set data =
     (case set_loop (entries_of data) 0 [] (replicate (length (entries_of data)) []) of
        (vals, columns) \<Rightarrow> (Join columns '', '', vals))"

section \<open>Failures\<close>

text \<open>
  The driver's error type \<^verbatim>\<open>*mysql.MySQLError\<close> carries the server's error number and
  message. A Go \<^verbatim>\<open>error\<close> is either such a driver error or anything else.
\<close>

record mysql_error =
  Number :: "16 word"
  Message :: string

datatype go_error =
    DriverError mysql_error
  | NumError string
  | OtherError string

record Error =
  Query :: string
  Values :: "val list"
  MySQLError :: mysql_error

text \<open>
  What a call can panic with: the library's \<^verbatim>\<open>*Error\<close>, a raw \<^verbatim>\<open>error\<close>, or one of the
  run-time panics of Go (assignment to an entry of a nil map, a failed type assertion).
\<close>

datatype panic =
    PanicError Error
  | PanicRaw go_error
  | PanicNilMap
  | PanicTypeAssertion

text \<open>
  \<^verbatim>\<open>handle_error(err error, query string, values ...interface{})\<close> never returns: the model
  gives the value it panics with. \<open>vals\<close> is the variadic parameter, the list of the
  arguments passed after \<open>query\<close>.
\<close>

definition handle_error :: "go_error \<Rightarrow> string \<Rightarrow> val list \<Rightarrow> panic" where
  "handle_error err q vals =
     (case err of
        DriverError mysql_err \<Rightarrow> PanicError \<lparr>Query = q, Values = vals, MySQLError = mysql_err\<rparr>
      | _ \<Rightarrow> PanicRaw err)"

section \<open>The connection\<close>

text \<open>
  \<^verbatim>\<open>sql.RawBytes\<close> is a byte slice; the nil slice (\<open>None\<close>) is what scanning a SQL NULL
  leaves. \<^verbatim>\<open>string(b)\<close> of the nil slice is the empty string.
\<close>

type_synonym RawBytes = "string option"

definition string_of :: "RawBytes \<Rightarrow> string" where
  "string_of b = (case b of None \<Rightarrow> [] | Some bytes \<Rightarrow> bytes)"

text \<open>
  A cursor \<^verbatim>\<open>*sql.Rows\<close>: what \<^verbatim>\<open>Columns()\<close> returns, and the rows that \<^verbatim>\<open>Next()\<close> steps
  through before it returns false, each as the raw bytes of its fields.
\<close>

record Rows =
  Columns :: "go_error + string list"
  fetched :: "RawBytes list list"

record Result =
  LastInsertId :: int
  RowsAffected :: int

text \<open>
  The package-level handle \<^verbatim>\<open>db\<close>: how the server answers a query and a statement, and
  the statements issued so far, each with the values bound to it.
\<close>

record DB =
  Query_db :: "string \<Rightarrow> val list \<Rightarrow> go_error + Rows"
  Exec_db :: "string \<Rightarrow> val list \<Rightarrow> go_error + Result"
  issued :: "(string \<times> val list) list"

text \<open>
  \<^verbatim>\<open>ExecQuery\<close> and \<^verbatim>\<open>Exec\<close> call \<^verbatim>\<open>handle_error(err, query, values)\<close>: the slice \<open>vals\<close> is
  passed as one argument (without \<^verbatim>\<open>...\<close>), so the variadic parameter of
  \<^verbatim>\<open>handle_error\<close> is the one-element list holding that slice.
\<close>

definition ExecQuery :: "DB \<Rightarrow> string \<Rightarrow> val list \<Rightarrow> (panic + Rows) \<times> DB" where
  "ExecQuery db q vals =
     (case Query_db db q vals of
        Inl err \<Rightarrow> (Inl (handle_error err q [VSlice vals]), db\<lparr>issued := issued db @ [(q, vals)]\<rparr>)
      | Inr rows \<Rightarrow> (Inr rows, db\<lparr>issued := issued db @ [(q, vals)]\<rparr>))"

definition Exec :: "DB \<Rightarrow> string \<Rightarrow> val list \<Rightarrow> (panic + Result) \<times> DB" where
  "Exec db q vals =
     (case Exec_db db q vals of
        Inl err \<Rightarrow> (Inl (handle_error err q [VSlice vals]), db\<lparr>issued := issued db @ [(q, vals)]\<rparr>)
      | Inr result \<Rightarrow> (Inr result, db\<lparr>issued := issued db @ [(q, vals)]\<rparr>))"

section \<open>Statements\<close>

text \<open>The optional trailing argument \<^verbatim>\<open>args ...map[string]interface{}\<close>.\<close>

definition first_arg :: "gomap list \<Rightarrow> gomap" where
  "first_arg args = (if length args > 0 then args ! 0 else None)"

text \<open>
  \<^verbatim>\<open>rows.Scan\<close> with one destination per column fails when the row has another number of
  fields; into \<^verbatim>\<open>*sql.RawBytes\<close> destinations it stores every field as bytes.
\<close>

definition Scan :: "nat \<Rightarrow> RawBytes list \<Rightarrow> go_error + RawBytes list" where
  "Scan n row =
     (if length row \<noteq> n then Inl (OtherError ''sql: wrong number of destination arguments in Scan'')
      else Inr row)"

type_synonym row_map = "(string \<times> val) list"

fun col_loop :: "string list \<Rightarrow> nat \<Rightarrow> RawBytes list \<Rightarrow> row_map \<Rightarrow> row_map" where
  "col_loop [] i vals result = result"
| "col_loop (col # cols) i vals result =
     col_loop cols (i + 1) vals (AList.update col (VStr (string_of (vals ! i))) result)"

fun rows_loop :: "string list \<Rightarrow> RawBytes list list \<Rightarrow> row_map list \<Rightarrow> panic + row_map list" where
  "rows_loop columns [] results = Inr results"
| "rows_loop columns (r # rs) results =
     (case Scan (length columns) r of
        Inl err \<Rightarrow> Inl (PanicRaw err)
      | Inr vals \<Rightarrow> rows_loop columns rs (results @ [col_loop columns 0 vals []]))"

definition Select :: "DB \<Rightarrow> string \<Rightarrow> gomap \<Rightarrow> gomap list \<Rightarrow> (panic + row_map list) \<times> DB" where
  "Select db table where_map args =
     (let options = first_arg args;
          cols = prepare_columns options;
          w = prepare_where where_map;
          order = order_query options;
          limit = limit_query options True;
          q = ''SELECT '' @ cols @ '' FROM '' @ EscapeId table [] @ query w @ order @ limit @ '';''
      in case ExecQuery db q (values w) of
           (Inl p, db') \<Rightarrow> (Inl p, db')
         | (Inr rows, db') \<Rightarrow>
             (case Columns rows of
                Inl err \<Rightarrow> (Inl (PanicRaw err), db')
              | Inr columns \<Rightarrow> (rows_loop columns (fetched rows) [], db')))"

fun set_limit_option :: "gomap list \<Rightarrow> panic + gomap list" where
  "set_limit_option [] = Inr [Some [(''limit'', VInt 1)]]"
| "set_limit_option [None] = Inl PanicNilMap"
| "set_limit_option [Some entries] = Inr [Some (AList.update ''limit'' (VInt 1) entries)]"
| "set_limit_option options = Inr options"

definition First :: "DB \<Rightarrow> string \<Rightarrow> gomap \<Rightarrow> gomap list \<Rightarrow> (panic + row_map option) \<times> DB" where
  "First db table where_map options =
     (case set_limit_option options of
        Inl p \<Rightarrow> (Inl p, db)
      | Inr options' \<Rightarrow>
          (case Select db table where_map options' of
             (Inl p, db') \<Rightarrow> (Inl p, db')
           | (Inr results, db') \<Rightarrow>
               (Inr (if length results = 1 then Some (results ! 0) else None), db')))"

fun insert_loop :: "(string \<times> val) list \<Rightarrow> val list \<Rightarrow> string list \<Rightarrow> string list \<Rightarrow>
    val list \<times> string list \<times> string list" where
  "insert_loop [] vals columns placeholders = (vals, columns, placeholders)"
| "insert_loop ((k, v) # rest) vals columns placeholders =
     insert_loop rest (vals @ [v]) (columns @ [EscapeId k []]) (placeholders @ [''?''])"

definition Insert :: "DB \<Rightarrow> string \<Rightarrow> gomap \<Rightarrow> (panic + Result) \<times> DB" where
  "Insert db table data =
     (case insert_loop (entries_of data) [] [] [] of
        (vals, columns, placeholders) \<Rightarrow>
          Exec db (''INSERT INTO '' @ EscapeId table [] @ ''('' @ Join columns '', '' @
                   '') VALUES('' @ Join placeholders '', '' @ '')'') vals)"

definition InsertRow :: "DB \<Rightarrow> string \<Rightarrow> gomap \<Rightarrow> (panic + Result) \<times> DB" where
  "InsertRow db table data =
     (case prepare_set data of
        (set_clause, vals) \<Rightarrow> Exec db (''INSERT INTO '' @ table @ '' SET '' @ set_clause @ '';'') vals)"

definition Update :: "DB \<Rightarrow> string \<Rightarrow> gomap \<Rightarrow> gomap \<Rightarrow> gomap list \<Rightarrow> (panic + Result) \<times> DB" where
  "Update db table data where_map args =
     (let options = first_arg args in
      case prepare_set data of
        (set_clause, vals) \<Rightarrow>
          (let w = prepare_where where_map;
               vals' = vals @ values w;
               order = order_query options;
               limit = limit_query options False
           in Exec db (''UPDATE '' @ EscapeId table [] @ '' SET '' @ set_clause @ query w @
                       order @ limit @ '';'') vals'))"

definition UpdateFirst :: "DB \<Rightarrow> string \<Rightarrow> gomap \<Rightarrow> gomap \<Rightarrow> gomap list \<Rightarrow> (panic + Result) \<times> DB" where
  "UpdateFirst db table data where_map options =
     (case set_limit_option options of
        Inl p \<Rightarrow> (Inl p, db)
      | Inr options' \<Rightarrow> Update db table data where_map options')"

definition Delete :: "DB \<Rightarrow> string \<Rightarrow> gomap \<Rightarrow> gomap list \<Rightarrow> (panic + Result) \<times> DB" where
  "Delete db table where_map args =
     (let options = first_arg args;
          w = prepare_where where_map;
          order = (case index options ''order'' of Some (VStr val) \<Rightarrow> '' ORDER BY '' @ val | _ \<Rightarrow> []);
          limit = (case index options ''limit'' of Some (VInt val) \<Rightarrow> '' LIMIT '' @ Sprintf_d val | _ \<Rightarrow> [])
      in Exec db (''DELETE FROM '' @ table @ query w @ order @ limit @ '';'') (values w))"

definition DeleteFirst :: "DB \<Rightarrow> string \<Rightarrow> gomap \<Rightarrow> gomap list \<Rightarrow> (panic + Result) \<times> DB" where
  "DeleteFirst db table where_map options =
     (case set_limit_option options of
        Inl p \<Rightarrow> (Inl p, db)
      | Inr options' \<Rightarrow> Delete db table where_map options')"

section \<open>Scalar conversion\<close>

text \<open>
  \<^verbatim>\<open>strconv.Atoi\<close> belongs to Go's standard library. Its documented behaviour, for the
  64-bit \<^verbatim>\<open>int\<close> of the usual platforms: an optional sign, then one or more decimal
  digits and nothing else; a value outside the range of \<^verbatim>\<open>int\<close> is an error too.
\<close>

definition is_digit :: "char \<Rightarrow> bool" where
  "is_digit c = (48 \<le> (of_char c :: int) \<and> (of_char c :: int) \<le> 57)"

fun atoi_digits :: "int \<Rightarrow> string \<Rightarrow> int option" where
  "atoi_digits n [] = Some n"
| "atoi_digits n (c # cs) =
     (if is_digit c then atoi_digits (n * 10 + (of_char c - 48)) cs else None)"

definition Atoi :: "string \<Rightarrow> go_error + int" where
  "Atoi s =
     (let neg = (s \<noteq> [] \<and> hd s = CHR ''-'');
          body = (if s \<noteq> [] \<and> (hd s = CHR ''-'' \<or> hd s = CHR ''+'') then tl s else s)
      in if body = [] then Inl (NumError s)
         else case atoi_digits 0 body of
                None \<Rightarrow> Inl (NumError s)
              | Some n \<Rightarrow>
                  (let i = (if neg then - n else n)
                   in if i < - (2 ^ 63) \<or> 2 ^ 63 \<le> i then Inl (NumError s) else Inr i))"

text \<open>
  \<^verbatim>\<open>ParseUint32(value interface{}) uint32\<close>: the type assertion \<^verbatim>\<open>value.(string)\<close>, then
  \<^verbatim>\<open>Atoi\<close>, then the conversion \<^verbatim>\<open>uint32(i)\<close>, which keeps the low 32 bits.
\<close>

definition ParseUint32 :: "val \<Rightarrow> panic + 32 word" where
  "ParseUint32 v =
     (case v of
        VStr s \<Rightarrow> (case Atoi s of Inl err \<Rightarrow> Inl (PanicRaw err) | Inr i \<Rightarrow> Inr (word_of_int i))
      | _ \<Rightarrow> Inl PanicTypeAssertion)"

section \<open>Notions used to state the properties\<close>

text \<open>
  A placeholder is a \<^verbatim>\<open>?\<close> that the server reads as a parameter marker, that is, one
  outside a backtick-quoted identifier. \<open>count_params q s\<close> counts them in \<open>s\<close>, where
  \<open>q\<close> tells whether the text starts inside a quoted identifier; \<open>quoted q s\<close> tells
  whether it ends inside one. A doubled backtick inside a quoted identifier leaves and
  re-enters it at once.
\<close>

fun count_params :: "bool \<Rightarrow> string \<Rightarrow> nat" where
  "count_params q [] = 0"
| "count_params q (c # cs) =
     (if c = backtick then count_params (\<not> q) cs
      else (if c = CHR ''?'' \<and> \<not> q then 1 else 0) + count_params q cs)"

fun quoted :: "bool \<Rightarrow> string \<Rightarrow> bool" where
  "quoted q [] = q"
| "quoted q (c # cs) = quoted (if c = backtick then \<not> q else q) cs"

definition placeholders :: "string \<Rightarrow> nat" where
  "placeholders s = count_params False s"

text \<open>
  The per-entry policy of the WHERE-clause builder as the specification words it: the
  condition an entry contributes, and the values it binds.
\<close>

definition spec_condition :: "string \<times> val \<Rightarrow> string" where
  "spec_condition e =
     EscapeId (fst e) [] @
       (if snd e = VNil then '' IS NULL''
        else if Kind (snd e) = KSlice
          then ''IN('' @ Join (replicate (length (elements (snd e))) ''?'') '', '' @ '')''
        else '' = ?'')"

definition spec_bindings :: "string \<times> val \<Rightarrow> val list" where
  "spec_bindings e =
     (if snd e = VNil then []
      else if Kind (snd e) = KSlice then elements (snd e)
      else if Kind (snd e) = KMap then [VStr (json_Marshal (snd e))]
      else [snd e])"


text \<open>
  Reading a text back as MySQL does a qualified name: backtick-quoted parts separated by
  dots, where a doubled backtick inside a part stands for one backtick and a single one
  closes the part. \<open>read_ids\<close> returns the parts, or \<open>None\<close> when the text is not of
  that form. \<open>cur\<close> is the part read so far.
\<close>

datatype scan_state = Outside | Inside | AfterTick

fun read_ids :: "scan_state \<Rightarrow> string \<Rightarrow> string \<Rightarrow> string list option" where
  "read_ids Outside cur [] = None"
| "read_ids Outside cur (c # cs) = (if c = backtick then read_ids Inside [] cs else None)"
| "read_ids Inside cur [] = None"
| "read_ids Inside cur (c # cs) =
     (if c = backtick then read_ids AfterTick cur cs else read_ids Inside (cur @ [c]) cs)"
| "read_ids AfterTick cur [] = Some [cur]"
| "read_ids AfterTick cur (c # cs) =
     (if c = backtick then read_ids Inside (cur @ [backtick]) cs
      else if c = CHR ''.'' then map_option ((#) cur) (read_ids Outside [] cs)
      else None)"

text \<open>
  Two connections for concrete runs: one whose server rejects every statement with a
  given driver error, one that answers every query with a given cursor.
\<close>

definition rejecting_db :: "mysql_error \<Rightarrow> DB" where
  "rejecting_db e =
     \<lparr>Query_db = (\<lambda>q vals. Inl (DriverError e)), Exec_db = (\<lambda>q vals. Inl (DriverError e)),
      issued = []\<rparr>"

definition answering_db :: "Rows \<Rightarrow> DB" where
  "answering_db rows =
     \<lparr>Query_db = (\<lambda>q vals. Inr rows), Exec_db = (\<lambda>q vals. Inr \<lparr>LastInsertId = 0, RowsAffected = 0\<rparr>),
      issued = []\<rparr>"

text \<open>
  The same connection, except that every SQL NULL in an answer is replaced by an empty,
  non-NULL field.
\<close>

definition null_as_empty :: "DB \<Rightarrow> DB" where
  "null_as_empty db =
     db\<lparr>Query_db := (\<lambda>q vals. case Query_db db q vals of
                          Inl err \<Rightarrow> Inl err
                        | Inr rows \<Rightarrow>
                            Inr (rows\<lparr>fetched := map (map (\<lambda>b. Some (string_of b))) (fetched rows)\<rparr>))\<rparr>"

text \<open>A row mapping all of whose values are strings.\<close>

definition all_text :: "row_map \<Rightarrow> bool" where
  "all_text row = list_all (\<lambda>e. Kind (snd e) = KString) row"

section \<open>The WHERE clause: placeholders and values\<close>

lemma in_loop_eq: "in_loop es vals ph = (vals @ es, ph @ replicate (length es) ''?'')"
  by (induction es arbitrary: vals ph) (simp_all add: replicate_append_same)

lemma where_loop_eq:
  "where_loop es vals conds = (vals @ concat (map spec_bindings es), conds @ map spec_condition es)"
  by (induction es arbitrary: vals conds)
     (auto simp: in_loop_eq spec_bindings_def spec_condition_def Let_def)

lemma count_params_append:
  "count_params q (a @ b) = count_params q a + count_params (quoted q a) b"
  by (induction a arbitrary: q) simp_all

lemma quoted_append: "quoted q (a @ b) = quoted (quoted q a) b"
  by (induction a arbitrary: q) simp_all

lemma quoted_Replace: "quoted q (Replace p backtick [backtick, backtick]) = q"
  by (induction p arbitrary: q) simp_all

lemma count_params_Replace: "count_params True (Replace p backtick [backtick, backtick]) = 0"
  by (induction p) simp_all

lemma quoted_quote_part: "quoted False (quote_part p) = False"
  by (simp add: quote_part_def quoted_append quoted_Replace)

lemma count_params_quote_part: "count_params False (quote_part p) = 0"
  by (simp add: quote_part_def count_params_append quoted_Replace count_params_Replace)

lemma not_backtick [simp]:
  "CHR ''.'' \<noteq> backtick" "CHR '','' \<noteq> backtick" "CHR ''?'' \<noteq> backtick"
  "CHR '' '' \<noteq> backtick" "CHR ''A'' \<noteq> backtick" "CHR ''N'' \<noteq> backtick"
  "CHR ''D'' \<noteq> backtick" "CHR ''W'' \<noteq> backtick" "CHR ''H'' \<noteq> backtick"
  "CHR ''E'' \<noteq> backtick" "CHR ''R'' \<noteq> backtick" "CHR ''I'' \<noteq> backtick"
  "CHR ''S'' \<noteq> backtick" "CHR ''U'' \<noteq> backtick" "CHR ''L'' \<noteq> backtick"
  "CHR ''='' \<noteq> backtick" "CHR ''('' \<noteq> backtick" "CHR '')'' \<noteq> backtick"
  by (simp_all add: backtick_def)

lemma Join_quote_parts:
  "quoted False (Join (map quote_part ps) ''.'') = False \<and>
   count_params False (Join (map quote_part ps) ''.'') = 0"
  by (induction ps rule: induct_list012)
     (simp_all add: quoted_append count_params_append quoted_quote_part count_params_quote_part)

lemma EscapeId_unquoted: "quoted False (EscapeId k []) = False"
  by (simp add: EscapeId_def Join_quote_parts)

lemma EscapeId_no_params: "count_params False (EscapeId k []) = 0"
  by (simp add: EscapeId_def Join_quote_parts)

lemma Join_balanced:
  assumes "\<And>t. t \<in> set ts \<Longrightarrow> quoted False t = False"
    and "quoted False sep = False" and "count_params False sep = 0"
  shows "quoted False (Join ts sep) = False \<and>
         count_params False (Join ts sep) = sum_list (map (count_params False) ts)"
  using assms
  by (induction ts rule: induct_list012) (simp_all add: quoted_append count_params_append)

lemma Join_marks:
  "count_params False (Join (replicate n ''?'') '', '') = n"
proof -
  have "count_params False (Join (replicate n ''?'') '', '')
        = sum_list (map (count_params False) (replicate n ''?''))"
    by (rule Join_balanced [THEN conjunct2]) simp_all
  then show ?thesis by (simp add: sum_list_replicate)
qed

lemma Join_marks_unquoted: "quoted False (Join (replicate n ''?'') '', '') = False"
  by (rule Join_balanced [THEN conjunct1]) simp_all

lemma spec_condition_unquoted: "quoted False (spec_condition e) = False"
  by (simp add: spec_condition_def quoted_append EscapeId_unquoted Join_marks_unquoted)

lemma spec_condition_params: "count_params False (spec_condition e) = length (spec_bindings e)"
  by (simp add: spec_condition_def spec_bindings_def count_params_append EscapeId_unquoted
      EscapeId_no_params Join_marks Join_marks_unquoted)

lemma conditions_params:
  "count_params False (Join (map spec_condition es) '' AND '')
     = length (concat (map spec_bindings es))"
proof -
  have "count_params False (Join (map spec_condition es) '' AND '')
        = sum_list (map (count_params False) (map spec_condition es))"
    by (rule Join_balanced [THEN conjunct2]) (auto simp: spec_condition_unquoted)
  then show ?thesis
    by (simp add: spec_condition_params length_concat comp_def)
qed

text \<open>
  Claim C1. For every condition map, the WHERE text of \<open>prepare_where\<close> holds exactly as
  many placeholders as the value sequence returned with it has values. They correspond
  in order: the text is the entries' conditions in iteration order, the value sequence
  is the entries' bound values in the same order, each condition holds as many
  placeholders as its entry binds values, and a slice binds its elements in element
  order.
\<close>

theorem prepare_where_placeholders:
  "placeholders (query (prepare_where w)) = length (values (prepare_where w))
   \<and> prepare_where (Some es) =
       \<lparr>query = '' WHERE '' @ Join (map spec_condition es) '' AND '',
        values = concat (map spec_bindings es)\<rparr>
   \<and> placeholders (spec_condition e) = length (spec_bindings e)
   \<and> spec_bindings (k, VSlice vs) = vs"
proof -
  have "placeholders (query (prepare_where w)) = length (values (prepare_where w))"
  proof (cases w)
    case None
    then show ?thesis by (simp add: prepare_where_def placeholders_def)
  next
    case (Some entries)
    then show ?thesis
      by (simp add: prepare_where_def placeholders_def where_loop_eq conditions_params
          count_params_append [of _ "'' WHERE ''"])
  qed
  moreover have "prepare_where (Some es) =
       \<lparr>query = '' WHERE '' @ Join (map spec_condition es) '' AND '',
        values = concat (map spec_bindings es)\<rparr>"
    by (simp add: prepare_where_def where_loop_eq)
  moreover have "placeholders (spec_condition e) = length (spec_bindings e)"
    by (simp add: placeholders_def spec_condition_params)
  moreover have "spec_bindings (k, VSlice vs) = vs"
    by (simp add: spec_bindings_def)
  ultimately show ?thesis by blast
qed

text \<open>
  A question mark inside an escaped column name is not a placeholder: for the column
  \<open>a?\<close> the clause holds two question marks and one placeholder, bound to one value.
\<close>

lemma question_mark_in_column_name:
  "query (prepare_where (Some [(''a?'', VInt 1)])) = '' WHERE `a?` = ?''
   \<and> count_list (query (prepare_where (Some [(''a?'', VInt 1)]))) (CHR ''?'') = 2
   \<and> placeholders (query (prepare_where (Some [(''a?'', VInt 1)]))) = 1
   \<and> values (prepare_where (Some [(''a?'', VInt 1)])) = [VInt 1]"
  by code_simp

text \<open>
  The fragment for the condition map \<open>{"id": [1,2,3]}\<close> as Claim C7 words it, with a
  space between the column name and \<open>IN\<close>, does not occur in the generated clause.
\<close>

theorem prepare_where_in_list_counterexample:
  "\<not> sublist ''id IN(?, ?, ?)''
       (query (prepare_where (Some [(''id'', VSlice [VInt 1, VInt 2, VInt 3])])))"
  by code_simp

text \<open>
  Claim C7, amended. For the condition map \<open>{"id": [1,2,3]}\<close> the generated clause is
  \<open>WHERE\<close> followed by the escaped column name, then \<open>IN(?, ?, ?)\<close> directly after the
  closing backtick, and the bound values are \<open>[1,2,3]\<close> in element order. The same
  shape holds for every column name and every slice: one placeholder per element.
\<close>

theorem prepare_where_in_list:
  "prepare_where (Some [(''id'', VSlice [VInt 1, VInt 2, VInt 3])])
     = \<lparr>query = '' WHERE `id`IN(?, ?, ?)'', values = [VInt 1, VInt 2, VInt 3]\<rparr>
   \<and> prepare_where (Some [(k, VSlice vs)])
     = \<lparr>query = '' WHERE '' @ EscapeId k [] @ ''IN('' @ Join (replicate (length vs) ''?'') '', '' @ '')'',
        values = vs\<rparr>"
proof
  show "prepare_where (Some [(''id'', VSlice [VInt 1, VInt 2, VInt 3])])
     = \<lparr>query = '' WHERE `id`IN(?, ?, ?)'', values = [VInt 1, VInt 2, VInt 3]\<rparr>"
    by code_simp
  show "prepare_where (Some [(k, VSlice vs)])
     = \<lparr>query = '' WHERE '' @ EscapeId k [] @ ''IN('' @ Join (replicate (length vs) ''?'') '', '' @ '')'',
        values = vs\<rparr>"
    by (simp add: prepare_where_def in_loop_eq)
qed

section \<open>The statements issued\<close>

lemma ExecQuery_issued: "issued (snd (ExecQuery db q vals)) = issued db @ [(q, vals)]"
  by (simp add: ExecQuery_def split: sum.split)

lemma Exec_issued: "issued (snd (Exec db q vals)) = issued db @ [(q, vals)]"
  by (simp add: Exec_def split: sum.split)

lemma Select_issued:
  "issued (snd (Select db table w args)) =
     issued db @ [(''SELECT '' @ prepare_columns (first_arg args) @ '' FROM '' @ EscapeId table [] @
                   query (prepare_where w) @ order_query (first_arg args) @
                   limit_query (first_arg args) True @ '';'',
                   values (prepare_where w))]"
proof -
  obtain r db' where e: "ExecQuery db (''SELECT '' @ prepare_columns (first_arg args) @ '' FROM '' @ EscapeId table [] @
                   query (prepare_where w) @ order_query (first_arg args) @
                   limit_query (first_arg args) True @ '';'') (values (prepare_where w)) = (r, db')"
    by (cases "ExecQuery db (''SELECT '' @ prepare_columns (first_arg args) @ '' FROM '' @ EscapeId table [] @
                   query (prepare_where w) @ order_query (first_arg args) @
                   limit_query (first_arg args) True @ '';'') (values (prepare_where w))")
  have "snd (Select db table w args) = db'"
    using e by (simp add: Select_def Let_def split: sum.split)
  moreover have "issued db' = issued db @ [(''SELECT '' @ prepare_columns (first_arg args) @ '' FROM '' @ EscapeId table [] @
                   query (prepare_where w) @ order_query (first_arg args) @
                   limit_query (first_arg args) True @ '';'',
                   values (prepare_where w))]"
    using ExecQuery_issued [of db _ "values (prepare_where w)"] e by (metis snd_conv)
  ultimately show ?thesis by simp
qed

lemma InsertRow_issued:
  "issued (snd (InsertRow db table data)) =
     issued db @ [(''INSERT INTO '' @ table @ '' SET '' @ fst (prepare_set data) @ '';'',
                   snd (prepare_set data))]"
  by (simp add: InsertRow_def Exec_issued split: prod.split)

lemma Delete_issued:
  "issued (snd (Delete db table w args)) =
     issued db @ [(''DELETE FROM '' @ table @ query (prepare_where w) @
                   order_query (first_arg args) @ limit_query (first_arg args) False @ '';'',
                   values (prepare_where w))]"
  by (simp add: Delete_def Let_def Exec_issued order_query_def limit_query_def
      split: option.split val.split)

lemma Update_issued:
  "issued (snd (Update db table data w args)) =
     issued db @ [(''UPDATE '' @ EscapeId table [] @ '' SET '' @ fst (prepare_set data) @
                   query (prepare_where w) @ order_query (first_arg args) @
                   limit_query (first_arg args) False @ '';'',
                   snd (prepare_set data) @ values (prepare_where w))]"
  by (simp add: Update_def Let_def Exec_issued split: prod.split)

text \<open>
  Claim C3 at the empty, non-nil condition map: \<open>prepare_where\<close> returns the bare prefix
  \<open>WHERE\<close> with no condition after it, and \<open>Select\<close> issues a statement that ends in
  \<open>WHERE ;\<close>.
\<close>

theorem prepare_where_empty_map:
  "prepare_where (Some []) = \<lparr>query = '' WHERE '', values = []\<rparr>
   \<and> issued (snd (Select db ''users'' (Some []) [])) = issued db @ [(''SELECT * FROM `users` WHERE ;'', [])]"
proof
  show "prepare_where (Some []) = \<lparr>query = '' WHERE '', values = []\<rparr>"
    by (simp add: prepare_where_def)
  have "''SELECT '' @ prepare_columns (first_arg []) @ '' FROM '' @ EscapeId ''users'' [] @
          query (prepare_where (Some [])) @ order_query (first_arg []) @
          limit_query (first_arg []) True @ '';'' = ''SELECT * FROM `users` WHERE ;''"
    by code_simp
  moreover have "values (prepare_where (Some [])) = []"
    by (simp add: prepare_where_def)
  ultimately show "issued (snd (Select db ''users'' (Some []) [])) = issued db @ [(''SELECT * FROM `users` WHERE ;'', [])]"
    by (simp only: Select_issued)
qed

lemma First_issued:
  "set_limit_option options = Inr options' \<Longrightarrow>
   issued (snd (First db table w options)) = issued (snd (Select db table w options'))"
  by (simp add: First_def split: sum.split prod.split)

lemma set_limit_option_forces:
  assumes "length options \<le> 1" and "set_limit_option options = Inr options'"
  shows "index (first_arg options') ''limit'' = Some (VInt 1)"
proof (cases options)
  case Nil
  with assms show ?thesis by (auto simp: first_arg_def index_def)
next
  case (Cons m ms)
  with assms have ms: "ms = []" by simp
  show ?thesis
  proof (cases m)
    case None
    with Cons ms assms show ?thesis by simp
  next
    case (Some entries)
    with Cons ms assms show ?thesis
      by (auto simp: first_arg_def index_def update_conv')
  qed
qed

lemma UpdateFirst_issued:
  "set_limit_option options = Inr options' \<Longrightarrow>
   issued (snd (UpdateFirst db table data w options)) = issued (snd (Update db table data w options'))"
  by (simp add: UpdateFirst_def)

lemma DeleteFirst_issued:
  "set_limit_option options = Inr options' \<Longrightarrow>
   issued (snd (DeleteFirst db table w options)) = issued (snd (Delete db table w options'))"
  by (simp add: DeleteFirst_def)

text \<open>
  Claim C2 at calls with two option maps, the first asking for limit 100:
  \<open>set_limit_option\<close> leaves the options as they are, and the statements that \<open>First\<close>,
  \<open>UpdateFirst\<close> and \<open>DeleteFirst\<close> issue carry the limit 100. At a call with one nil
  options map, \<open>First\<close> panics before any statement is built.
\<close>

theorem First_two_option_maps:
  "issued (snd (First db ''users'' None [Some [(''limit'', VInt 100)], Some []]))
     = issued db @ [(''SELECT * FROM `users` LIMIT 0, 100;'', [])]
   \<and> issued (snd (UpdateFirst db ''users'' (Some [(''a'', VInt 1)]) None
                  [Some [(''limit'', VInt 100)], Some []]))
     = issued db @ [(''UPDATE `users` SET `a` = ? LIMIT 100;'', [VInt 1])]
   \<and> issued (snd (DeleteFirst db ''users'' None [Some [(''limit'', VInt 100)], Some []]))
     = issued db @ [(''DELETE FROM users LIMIT 100;'', [])]
   \<and> First db ''users'' None [None] = (Inl PanicNilMap, db)"
proof -
  let ?opts = "[Some [(''limit'', VInt 100)], Some []]"
  have keep: "set_limit_option ?opts = Inr ?opts" by simp
  have no_values: "values (prepare_where None) = []"
    by (simp add: prepare_where_def)
  have "''SELECT '' @ prepare_columns (first_arg ?opts) @ '' FROM '' @ EscapeId ''users'' [] @
          query (prepare_where None) @ order_query (first_arg ?opts) @
          limit_query (first_arg ?opts) True @ '';'' = ''SELECT * FROM `users` LIMIT 0, 100;''"
    by code_simp
  with no_values
  have f: "issued (snd (First db ''users'' None ?opts))
            = issued db @ [(''SELECT * FROM `users` LIMIT 0, 100;'', [])]"
    by (simp only: First_issued [OF keep] Select_issued)
  have "''UPDATE '' @ EscapeId ''users'' [] @ '' SET '' @ fst (prepare_set (Some [(''a'', VInt 1)])) @
          query (prepare_where None) @ order_query (first_arg ?opts) @
          limit_query (first_arg ?opts) False @ '';'' = ''UPDATE `users` SET `a` = ? LIMIT 100;''"
    by code_simp
  moreover have "snd (prepare_set (Some [(''a'', VInt 1)])) @ values (prepare_where None) = [VInt 1]"
    by code_simp
  ultimately
  have u: "issued (snd (UpdateFirst db ''users'' (Some [(''a'', VInt 1)]) None ?opts))
            = issued db @ [(''UPDATE `users` SET `a` = ? LIMIT 100;'', [VInt 1])]"
    by (simp only: UpdateFirst_issued [OF keep] Update_issued)
  have "''DELETE FROM '' @ ''users'' @ query (prepare_where None) @ order_query (first_arg ?opts) @
          limit_query (first_arg ?opts) False @ '';'' = ''DELETE FROM users LIMIT 100;''"
    by code_simp
  with no_values
  have d: "issued (snd (DeleteFirst db ''users'' None ?opts))
            = issued db @ [(''DELETE FROM users LIMIT 100;'', [])]"
    by (simp only: DeleteFirst_issued [OF keep] Delete_issued)
  have n: "First db ''users'' None [None] = (Inl PanicNilMap, db)"
    by (simp add: First_def)
  from f u d n show ?thesis by blast
qed

section \<open>Identifier escaping: reading the result back\<close>

lemma read_ids_body:
  "read_ids Inside cur (Replace p backtick [backtick, backtick] @ backtick # rest)
     = read_ids AfterTick (cur @ p) rest"
  by (induction p arbitrary: cur) simp_all

lemma read_ids_quote_part:
  "read_ids Outside cur (quote_part p @ rest) = read_ids AfterTick p rest"
  using read_ids_body [of "[]" p rest] by (simp add: quote_part_def)

lemma read_ids_Join:
  "ps \<noteq> [] \<Longrightarrow> read_ids Outside cur (Join (map quote_part ps) ''.'') = Some ps"
proof (induction ps arbitrary: cur rule: induct_list012)
  case 1
  then show ?case by simp
next
  case (2 p)
  show ?case using read_ids_quote_part [of cur p "[]"] by simp
next
  case (3 p q ps)
  have "read_ids Outside cur (quote_part p @ CHR ''.'' # Join (map quote_part (q # ps)) ''.'')
        = map_option ((#) p) (read_ids Outside [] (Join (map quote_part (q # ps)) ''.''))"
    by (simp add: read_ids_quote_part backtick_def)
  with 3 show ?case by simp
qed

lemma split_from_nonempty: "split_from cur sep s \<noteq> []"
  by (induction s arbitrary: cur) simp_all

text \<open>
  \<open>EscapeId\<close> is not idempotent (Claim C4 as worded): escaping the escaped form of \<open>a\<close>
  quotes it once more.
\<close>

theorem EscapeId_idempotent_counterexample:
  "EscapeId (EscapeId ''a'' []) [] \<noteq> EscapeId ''a'' []"
  by (simp add: EscapeId_def Split_def quote_part_def backtick_def)

text \<open>
  Claim C4, amended. For every identifier, no backtick of the input is left unescaped
  in the output of \<open>EscapeId\<close>: every backtick inside a quoted part is doubled, so that
  reading the output back as backtick-quoted, dot-separated parts gives exactly the
  dot-separated parts of the input (the whole input as one part when the flag is set).
\<close>

theorem EscapeId_reads_back:
  "read_ids Outside [] (EscapeId ident flags)
     = Some (if length flags > 0 \<and> hd flags then [ident] else Split ident (CHR ''.''))"
proof (cases "length flags > 0 \<and> hd flags")
  case True
  then have e: "EscapeId ident flags = quote_part ident @ []"
    unfolding EscapeId_def quote_part_def by (simp only: if_P append_Nil2)
  have "read_ids Outside [] (quote_part ident @ []) = Some [ident]"
    by (simp only: read_ids_quote_part read_ids.simps)
  then show ?thesis
    unfolding e by (simp only: if_P [OF True])
next
  case False
  then have e: "EscapeId ident flags = Join (map quote_part (Split ident (CHR ''.''))) ''.''"
    unfolding EscapeId_def by (rule if_not_P)
  have "Split ident (CHR ''.'') \<noteq> []"
    by (simp add: Split_def split_from_nonempty)
  then have "read_ids Outside [] (Join (map quote_part (Split ident (CHR ''.''))) ''.'')
             = Some (Split ident (CHR ''.''))"
    by (rule read_ids_Join)
  then show ?thesis
    unfolding e by (simp only: if_not_P [OF False])
qed

section \<open>Table names in the statements\<close>

text \<open>
  Claim C5 at the table name \<open>order\<close>: \<open>Delete\<close> and \<open>InsertRow\<close> put the table name
  into the statement as it is, while \<open>Select\<close> (like \<open>Insert\<close> and \<open>Update\<close>) escapes it.
\<close>

theorem table_left_unescaped:
  "issued (snd (Delete db ''order'' None [])) = issued db @ [(''DELETE FROM order;'', [])]
   \<and> issued (snd (InsertRow db ''order'' (Some [(''id'', VInt 7)])))
       = issued db @ [(''INSERT INTO order SET `id` = ?;'', [VInt 7])]
   \<and> issued (snd (Select db ''order'' None [])) = issued db @ [(''SELECT * FROM `order`;'', [])]"
proof -
  have "''DELETE FROM '' @ ''order'' @ query (prepare_where None) @
          order_query (first_arg []) @ limit_query (first_arg []) False @ '';'' = ''DELETE FROM order;''"
    by code_simp
  moreover have "values (prepare_where None) = []"
    by (simp add: prepare_where_def)
  ultimately have d: "issued (snd (Delete db ''order'' None [])) = issued db @ [(''DELETE FROM order;'', [])]"
    by (simp only: Delete_issued)
  have "''INSERT INTO '' @ ''order'' @ '' SET '' @ fst (prepare_set (Some [(''id'', VInt 7)])) @ '';''
          = ''INSERT INTO order SET `id` = ?;''"
    by code_simp
  moreover have "snd (prepare_set (Some [(''id'', VInt 7)])) = [VInt 7]"
    by code_simp
  ultimately have i: "issued (snd (InsertRow db ''order'' (Some [(''id'', VInt 7)])))
       = issued db @ [(''INSERT INTO order SET `id` = ?;'', [VInt 7])]"
    by (simp only: InsertRow_issued)
  have "''SELECT '' @ prepare_columns (first_arg []) @ '' FROM '' @ EscapeId ''order'' [] @
          query (prepare_where None) @ order_query (first_arg []) @
          limit_query (first_arg []) True @ '';'' = ''SELECT * FROM `order`;''"
    by code_simp
  with \<open>values (prepare_where None) = []\<close>
  have s: "issued (snd (Select db ''order'' None [])) = issued db @ [(''SELECT * FROM `order`;'', [])]"
    by (simp only: Select_issued)
  from d i s show ?thesis by blast
qed

section \<open>Execution failures\<close>

lemma nested_neq: "[VSlice vals] \<noteq> vals"
proof
  assume eq: "[VSlice vals] = vals"
  have "size_list size [VSlice vals] = size_list size vals"
    using eq by simp
  then show False by simp
qed

text \<open>
  Claim C6 on a connection whose server rejects the statement with a driver error: the
  error that \<open>Exec\<close> and \<open>ExecQuery\<close> panic with carries the query text and the driver
  error, but its value sequence is a one-element sequence holding the bound sequence,
  which differs from the bound sequence that the driver was given.
\<close>

theorem Exec_error_values:
  "fst (Exec (rejecting_db e) q vals)
     = Inl (PanicError \<lparr>Query = q, Values = [VSlice vals], MySQLError = e\<rparr>)
   \<and> fst (ExecQuery (rejecting_db e) q vals)
     = Inl (PanicError \<lparr>Query = q, Values = [VSlice vals], MySQLError = e\<rparr>)
   \<and> snd (last (issued (snd (Exec (rejecting_db e) q vals)))) = vals
   \<and> [VSlice vals] \<noteq> vals"
  by (simp add: Exec_def ExecQuery_def rejecting_db_def handle_error_def nested_neq)

section \<open>The LIMIT fragment\<close>

lemma Sprintf_d_0: "Sprintf_d 0 = ''0''"
  by code_simp

text \<open>
  Claim C9. For every options map: when \<open>limit\<close> is present (as an \<open>int\<close>), the
  offset-capable context gets \<open>LIMIT offset, limit\<close>, with offset 0 when no \<open>int\<close> offset
  is given, and the other context gets \<open>LIMIT limit\<close>; when no \<open>int\<close> limit is given the
  fragment is empty, whatever the offset. The statement that \<open>Select\<close> issues for the
  caller's options map carries the offset-capable fragment of that map, the statements
  of \<open>Update\<close> and \<open>Delete\<close> the plain one; called without options, they carry no
  \<open>LIMIT\<close>.
\<close>

theorem limit_query_fragment:
  "(index options ''limit'' = Some (VInt l) \<and> index options ''offset'' = Some (VInt off)
      \<longrightarrow> limit_query options True = '' LIMIT '' @ Sprintf_d off @ '', '' @ Sprintf_d l)
   \<and> (index options ''limit'' = Some (VInt l) \<and> (\<forall>v. index options ''offset'' \<noteq> Some (VInt v))
      \<longrightarrow> limit_query options True = '' LIMIT 0, '' @ Sprintf_d l)
   \<and> (index options ''limit'' = Some (VInt l)
      \<longrightarrow> limit_query options False = '' LIMIT '' @ Sprintf_d l)
   \<and> ((\<forall>v. index options ''limit'' \<noteq> Some (VInt v)) \<longrightarrow> limit_query options has_offset = [])
   \<and> snd (last (issued (snd (Select db table w args)))) = values (prepare_where w)
   \<and> fst (last (issued (snd (Select db table w (options # rest)))))
       = ''SELECT '' @ prepare_columns options @ '' FROM '' @ EscapeId table [] @
         query (prepare_where w) @ order_query options @ limit_query options True @ '';''
   \<and> fst (last (issued (snd (Update db table data w (options # rest)))))
       = ''UPDATE '' @ EscapeId table [] @ '' SET '' @ fst (prepare_set data) @
         query (prepare_where w) @ order_query options @ limit_query options False @ '';''
   \<and> fst (last (issued (snd (Delete db table w (options # rest)))))
       = ''DELETE FROM '' @ table @ query (prepare_where w) @ order_query options @
         limit_query options False @ '';''
   \<and> fst (last (issued (snd (Select db table w []))))
       = ''SELECT * FROM '' @ EscapeId table [] @ query (prepare_where w) @ '';''
   \<and> fst (last (issued (snd (Update db table data w []))))
       = ''UPDATE '' @ EscapeId table [] @ '' SET '' @ fst (prepare_set data) @
         query (prepare_where w) @ '';''
   \<and> fst (last (issued (snd (Delete db table w []))))
       = ''DELETE FROM '' @ table @ query (prepare_where w) @ '';''"
proof -
  have "index options ''limit'' = Some (VInt l) \<and> index options ''offset'' = Some (VInt off)
      \<longrightarrow> limit_query options True = '' LIMIT '' @ Sprintf_d off @ '', '' @ Sprintf_d l"
    by (simp add: limit_query_def)
  moreover have "index options ''limit'' = Some (VInt l) \<and> (\<forall>v. index options ''offset'' \<noteq> Some (VInt v))
      \<longrightarrow> limit_query options True = '' LIMIT 0, '' @ Sprintf_d l"
    by (auto simp: limit_query_def Sprintf_d_0 split: option.split val.split)
  moreover have "index options ''limit'' = Some (VInt l)
      \<longrightarrow> limit_query options False = '' LIMIT '' @ Sprintf_d l"
    by (simp add: limit_query_def)
  moreover have "(\<forall>v. index options ''limit'' \<noteq> Some (VInt v)) \<longrightarrow> limit_query options has_offset = []"
    by (auto simp: limit_query_def split: option.split val.split)
  moreover have "first_arg (options # rest) = options" "first_arg [] = None"
    by (simp_all add: first_arg_def)
  moreover have "prepare_columns None = ''*''" "order_query None = []" "limit_query None b = []" for b
    by (simp_all add: prepare_columns_def order_query_def limit_query_def index_def)
  ultimately show ?thesis
    by (simp add: Select_issued Update_issued Delete_issued)
qed

theorem limit_query_fragment_witness:
  "limit_query (Some [(''limit'', VInt 5), (''offset'', VInt 10)]) True = '' LIMIT 10, 5''
   \<and> limit_query (Some [(''limit'', VInt 5)]) True = '' LIMIT 0, 5''
   \<and> limit_query (Some [(''limit'', VInt 5), (''offset'', VInt 10)]) False = '' LIMIT 5''
   \<and> limit_query (Some [(''offset'', VInt 10)]) True = []
   \<and> fst (last (issued (snd (Select (answering_db \<lparr>Columns = Inr [], fetched = []\<rparr>) ''t'' None
                                [Some [(''limit'', VInt 5), (''offset'', VInt 10)]]))))
       = ''SELECT * FROM `t` LIMIT 10, 5;''
   \<and> fst (last (issued (snd (Select (answering_db \<lparr>Columns = Inr [], fetched = []\<rparr>) ''t'' None
                                [Some [(''limit'', VInt 5)]]))))
       = ''SELECT * FROM `t` LIMIT 0, 5;''
   \<and> fst (last (issued (snd (Update (answering_db \<lparr>Columns = Inr [], fetched = []\<rparr>) ''t''
                                (Some [(''a'', VInt 1)]) None
                                [Some [(''limit'', VInt 5), (''offset'', VInt 10)]]))))
       = ''UPDATE `t` SET `a` = ? LIMIT 5;''
   \<and> fst (last (issued (snd (Delete (answering_db \<lparr>Columns = Inr [], fetched = []\<rparr>) ''t'' None
                                [Some [(''limit'', VInt 5), (''offset'', VInt 10)]]))))
       = ''DELETE FROM t LIMIT 5;''
   \<and> fst (last (issued (snd (Select (answering_db \<lparr>Columns = Inr [], fetched = []\<rparr>) ''t'' None
                                [Some [(''offset'', VInt 10)]]))))
       = ''SELECT * FROM `t`;''
   \<and> fst (last (issued (snd (Select (answering_db \<lparr>Columns = Inr [], fetched = []\<rparr>) ''t'' None []))))
       = ''SELECT * FROM `t`;''"
proof -
  let ?both = "Some [(''limit'', VInt 5), (''offset'', VInt 10)]"
  let ?lim = "Some [(''limit'', VInt 5)]"
  let ?off = "Some [(''offset'', VInt 10)]"
  let ?db = "answering_db \<lparr>Columns = Inr [], fetched = []\<rparr>"
  have i1: "index ?both ''limit'' = Some (VInt 5)" "index ?both ''offset'' = Some (VInt 10)"
    "index ?lim ''limit'' = Some (VInt 5)" "index ?lim ''offset'' = None"
    "index ?off ''limit'' = None"
    by (simp_all add: index_def)
  have d: "Sprintf_d 5 = ''5''" "Sprintf_d 10 = ''10''"
    by code_simp+
  have parts: "prepare_columns ?both = ''*''" "prepare_columns ?lim = ''*''"
    "prepare_columns ?off = ''*''" "order_query ?both = []" "order_query ?lim = []"
    "order_query ?off = []" "EscapeId ''t'' [] = ''`t`''" "query (prepare_where None) = []"
    "fst (prepare_set (Some [(''a'', VInt 1)])) = ''`a` = ?''"
    by code_simp+
  show ?thesis
    using limit_query_fragment [where options = ?both and l = 5 and off = 10 and db = ?db
        and table = "''t''" and w = None and rest = "[]" and data = "Some [(''a'', VInt 1)]"]
      limit_query_fragment [where options = ?lim and l = 5 and db = ?db
        and table = "''t''" and w = None and rest = "[]"]
      limit_query_fragment [where options = ?off and has_offset = True and db = ?db
        and table = "''t''" and w = None and rest = "[]"]
    by (simp add: i1 d parts)
qed

section \<open>Rows returned by Select\<close>

lemma list_all_update:
  "list_all P al \<Longrightarrow> P (k, v) \<Longrightarrow> list_all P (AList.update k v al)"
  by (induction al) auto

lemma col_loop_text: "all_text result \<Longrightarrow> all_text (col_loop columns i vals result)"
  by (induction columns arbitrary: i result) (simp_all add: all_text_def list_all_update)

lemma all_text_Nil: "all_text []"
  by (simp add: all_text_def)

lemma rows_loop_text:
  "list_all all_text results \<Longrightarrow> rows_loop columns rs results = Inr results' \<Longrightarrow>
   list_all all_text results'"
proof (induction rs arbitrary: results)
  case Nil
  then show ?case by simp
next
  case (Cons r rs)
  from Cons.prems(2) obtain vals where
    sc: "Scan (length columns) r = Inr vals" and
    rl: "rows_loop columns rs (results @ [col_loop columns 0 vals []]) = Inr results'"
    by (auto split: sum.splits)
  have "list_all all_text (results @ [col_loop columns 0 vals []])"
    using Cons.prems(1) by (simp add: col_loop_text all_text_Nil)
  then show ?case
    using rl by (rule Cons.IH)
qed

lemma col_loop_null:
  "i + length columns \<le> length vals \<Longrightarrow>
   col_loop columns i (map (\<lambda>b. Some (string_of b)) vals) result = col_loop columns i vals result"
  by (induction columns arbitrary: i result) (simp_all add: string_of_def)

lemma rows_loop_null:
  "rows_loop columns (map (map (\<lambda>b. Some (string_of b))) rs) results = rows_loop columns rs results"
  by (induction rs arbitrary: results) (simp_all add: Scan_def col_loop_null)

lemma Select_result:
  "fst (Select db table w args) =
     (case Query_db db (''SELECT '' @ prepare_columns (first_arg args) @ '' FROM '' @ EscapeId table [] @
                   query (prepare_where w) @ order_query (first_arg args) @
                   limit_query (first_arg args) True @ '';'') (values (prepare_where w)) of
        Inl err \<Rightarrow> Inl (handle_error err (''SELECT '' @ prepare_columns (first_arg args) @ '' FROM '' @ EscapeId table [] @
                   query (prepare_where w) @ order_query (first_arg args) @
                   limit_query (first_arg args) True @ '';'') [VSlice (values (prepare_where w))])
      | Inr rows \<Rightarrow>
          (case Columns rows of
             Inl err \<Rightarrow> Inl (PanicRaw err)
           | Inr columns \<Rightarrow> rows_loop columns (fetched rows) []))"
  by (simp add: Select_def ExecQuery_def Let_def split: sum.split)

text \<open>
  Claim C10. In every row mapping returned by \<open>Select\<close> every column value is a string,
  and a SQL NULL is represented as the empty string: the result is the same as if the
  server had sent an empty, non-NULL field instead.
\<close>

theorem Select_rows_textual:
  assumes "fst (Select db table w args) = Inr results"
  shows "list_all all_text results
         \<and> fst (Select (null_as_empty db) table w args) = fst (Select db table w args)
         \<and> string_of None = []"
proof -
  have "list_all all_text results"
    using assms rows_loop_text [of "[]" _ _ results]
    by (auto simp: Select_result split: sum.splits)
  moreover have "fst (Select (null_as_empty db) table w args) = fst (Select db table w args)"
    by (simp add: Select_result null_as_empty_def rows_loop_null split: sum.split)
  moreover have "string_of None = []"
    by (simp add: string_of_def)
  ultimately show ?thesis by blast
qed

theorem Select_rows_textual_witness:
  "fst (Select (answering_db \<lparr>Columns = Inr [''id'', ''name''], fetched = [[Some ''1'', None]]\<rparr>)
          ''users'' None [])
     = Inr [[(''id'', VStr ''1''), (''name'', VStr [])]]
   \<and> list_all all_text [[(''id'', VStr ''1''), (''name'', VStr [])]]"
proof -
  have s: "fst (Select (answering_db \<lparr>Columns = Inr [''id'', ''name''], fetched = [[Some ''1'', None]]\<rparr>)
          ''users'' None [])
     = Inr [[(''id'', VStr ''1''), (''name'', VStr [])]]"
    by (simp add: Select_result answering_db_def Scan_def string_of_def)
  from Select_rows_textual [OF s] s show ?thesis by simp
qed

section \<open>ParseUint32\<close>

lemma of_char_digit_char: "d < 10 \<Longrightarrow> (of_char (digit_char d) :: int) = 48 + int d"
proof -
  assume d: "d < 10"
  have "(of_char (digit_char d) :: int) = int (of_char (digit_char d))"
    by (simp only: of_nat_of_char)
  also have "\<dots> = int ((48 + d) mod 256)"
    by (simp add: digit_char_def)
  also have "\<dots> = 48 + int d"
    using d by simp
  finally show ?thesis .
qed

lemma is_digit_digit_char: "d < 10 \<Longrightarrow> is_digit (digit_char d)"
  by (simp add: is_digit_def of_char_digit_char)

lemma atoi_digits_append:
  "atoi_digits n (a @ b) = (case atoi_digits n a of None \<Rightarrow> None | Some m \<Rightarrow> atoi_digits m b)"
  by (induction a arbitrary: n) simp_all

lemma atoi_digits_decimal:
  "atoi_digits acc (decimal n) = Some (acc * 10 ^ length (decimal n) + int n)"
proof (induction n arbitrary: acc rule: decimal.induct)
  case (1 n)
  show ?case
  proof (cases "n < 10")
    case True
    then show ?thesis
      by (simp add: decimal.simps [of n] is_digit_digit_char of_char_digit_char)
  next
    case False
    have m: "n mod 10 < 10" by simp
    have "int (n div 10) * 10 + int (n mod 10) = int n"
      by (metis div_mult_mod_eq of_nat_add of_nat_mult of_nat_numeral)
    then show ?thesis
      using False 1 [OF False, of acc]
      by (simp add: decimal.simps [of n] atoi_digits_append is_digit_digit_char [OF m]
          of_char_digit_char [OF m] algebra_simps)
  qed
qed

lemma decimal_head: "decimal n \<noteq> [] \<and> is_digit (hd (decimal n))"
proof (induction n rule: decimal.induct)
  case (1 n)
  show ?case
  proof (cases "n < 10")
    case True
    then show ?thesis by (simp add: decimal.simps [of n] is_digit_digit_char)
  next
    case False
    with 1 show ?thesis by (simp add: decimal.simps [of n])
  qed
qed

lemma is_digit_not_sign: "is_digit c \<Longrightarrow> c \<noteq> CHR ''-'' \<and> c \<noteq> CHR ''+''"
  by (auto simp: is_digit_def)

text \<open>
  What \<open>Atoi\<close> accepts: the decimal text of a number is read back as that number when
  it lies in the range of \<open>int\<close> and rejected otherwise; a text with no digit, or with
  a character that is not a digit after the digits, is rejected.
\<close>

lemma Atoi_decimal_text:
  "Atoi (Sprintf_d i) =
     (if - (2 ^ 63) \<le> i \<and> i < 2 ^ 63 then Inr i else Inl (NumError (Sprintf_d i)))"
proof (cases "i < 0")
  case True
  have "decimal (nat (- i)) \<noteq> []" by (simp add: decimal_head)
  then show ?thesis
    using True by (simp add: Atoi_def Sprintf_d_def atoi_digits_decimal)
next
  case False
  have h: "decimal (nat i) \<noteq> []" "hd (decimal (nat i)) \<noteq> CHR ''-''" "hd (decimal (nat i)) \<noteq> CHR ''+''"
    using decimal_head [of "nat i"] is_digit_not_sign by blast+
  then show ?thesis
    using False by (auto simp: Atoi_def Sprintf_d_def atoi_digits_decimal)
qed

lemma Atoi_rejects_empty: "Atoi [] = Inl (NumError [])" "Atoi ''-'' = Inl (NumError ''-'')"
  "Atoi ''+'' = Inl (NumError ''+'')"
  by (simp_all add: Atoi_def)

lemma Atoi_rejects_non_digit:
  "\<not> is_digit c \<Longrightarrow> Atoi (Sprintf_d (int n) @ c # rest) = Inl (NumError (Sprintf_d (int n) @ c # rest))"
proof -
  assume c: "\<not> is_digit c"
  have h: "decimal n \<noteq> []" "hd (decimal n) \<noteq> CHR ''-''" "hd (decimal n) \<noteq> CHR ''+''"
    using decimal_head [of n] is_digit_not_sign by blast+
  with c show ?thesis
    by (simp add: Atoi_def Sprintf_d_def atoi_digits_append atoi_digits_decimal)
qed

lemma ParseUint32_decimal_text:
  "ParseUint32 (VStr (Sprintf_d i)) =
     (if - (2 ^ 63) \<le> i \<and> i < 2 ^ 63 then Inr (word_of_int i)
      else Inl (PanicRaw (NumError (Sprintf_d i))))"
  by (simp add: ParseUint32_def Atoi_decimal_text)

lemma uint_ParseUint32:
  "ParseUint32 (VStr s) = Inr u \<Longrightarrow> \<exists>i. Atoi s = Inr i \<and> uint u = i mod 2 ^ 32"
  by (auto simp: ParseUint32_def uint_word_of_int split: sum.splits)

text \<open>
  Claim C8 at inputs outside the range of \<open>uint32\<close>: \<open>ParseUint32\<close> does not fail on
  \<open>-1\<close> and \<open>4294967296\<close> but returns 4294967295 and 0, while it does fail on malformed
  input, on the empty string and on a value outside the range of \<open>int\<close>.
\<close>

theorem ParseUint32_out_of_range:
  "ParseUint32 (VStr ''-1'') = Inr 4294967295
   \<and> ParseUint32 (VStr ''4294967296'') = Inr 0
   \<and> ParseUint32 (VStr ''4294967295'') = Inr 4294967295
   \<and> ParseUint32 (VStr ''12a'') = Inl (PanicRaw (NumError ''12a''))
   \<and> ParseUint32 (VStr []) = Inl (PanicRaw (NumError []))
   \<and> ParseUint32 (VStr ''9223372036854775808'')
       = Inl (PanicRaw (NumError ''9223372036854775808''))"
  by (simp add: ParseUint32_def Atoi_def is_digit_def)

end
